theory Spec2Isabelle
  imports Complex_Main
begin

section \<open>Shared helpers: Python strings\<close>

text \<open>
  Python's \<open>str\<close> is modelled as \<open>string\<close>. \<open>str(n)\<close> of an integer is its
  decimal text.
\<close>

definition digit_char :: "nat \<Rightarrow> char" where
  "digit_char d = ''0123456789'' ! (d mod 10)"

fun str_nat :: "nat \<Rightarrow> string" where
  "str_nat n = (if n < 10 then [digit_char n] else str_nat (n div 10) @ [digit_char (n mod 10)])"

definition str_int :: "int \<Rightarrow> string" where
  "str_int i = (if i < 0 then CHR ''-'' # str_nat (nat (- i)) else str_nat (nat i))"

text \<open>
  \<open>s.lower()\<close>: the letters \<open>A\<close> to \<open>Z\<close> are mapped to \<open>a\<close> to \<open>z\<close>; every other
  character is kept.
\<close>

definition lower_char :: "char \<Rightarrow> char" where
  "lower_char c =
     (let n = of_char c :: nat in if 65 \<le> n \<and> n \<le> 90 then char_of (n + 32) else c)"

definition lower :: "string \<Rightarrow> string" where
  "lower s = map lower_char s"

text \<open>\<open>needle in haystack\<close> on strings: the needle occurs as a contiguous block.\<close>

fun starts_with :: "string \<Rightarrow> string \<Rightarrow> bool" where
  "starts_with [] ys = True"
| "starts_with (x # xs) [] = False"
| "starts_with (x # xs) (y # ys) = (x = y \<and> starts_with xs ys)"

fun str_in :: "string \<Rightarrow> string \<Rightarrow> bool" where
  "str_in needle [] = (needle = [])"
| "str_in needle (c # cs) = (starts_with needle (c # cs) \<or> str_in needle cs)"

section \<open>MLOps readiness checker (mlops\_checker.py)\<close>

text \<open>The \<open>Issue\<close> dataclass.\<close>

record issue =
  severity :: string
  category :: string
  message :: string
  file_path :: "string option"
  line_number :: "int option"

text \<open>
  One iteration of the loop of \<open>_calculate_readiness_score\<close>. The score is a Python float
  that only ever holds whole numbers, so it is modelled as an integer.
\<close>

definition penalise :: "int \<Rightarrow> issue \<Rightarrow> int" where
  "penalise base_score i =
     (if severity i = ''critical'' then base_score - 20
      else if severity i = ''warning'' then base_score - 10
      else if severity i = ''info'' then base_score - 5
      else base_score)"

definition calculate_readiness_score :: "issue list \<Rightarrow> int" where
  "calculate_readiness_score issues = max 0 (foldl penalise 100 issues)"

text \<open>The number of issues of one severity.\<close>

definition count_severity :: "string \<Rightarrow> issue list \<Rightarrow> int" where
  "count_severity s issues = int (length (filter (\<lambda>i. severity i = s) issues))"

section \<open>Neural monitoring: the anomaly mask generator (utils.py)\<close>

text \<open>
  \<open>model_binary_example\<close> reads only the shape of its input. \<open>int(0.05 * n_times)\<close> is
  \<open>n_times div 20\<close>: the double nearest to 0.05 lies just above 1/20, so the product never
  falls below a whole number that \<open>n_times / 20\<close> reaches.
\<close>

definition min_run_length :: nat where
  "min_run_length = 10"

definition total_ones :: "nat \<Rightarrow> nat" where
  "total_ones n_times = n_times div 20"

definition possible_starts :: "nat \<Rightarrow> nat list" where
  "possible_starts n_times = [0 ..< n_times + 1 - min_run_length]"

definition n_runs :: "nat \<Rightarrow> nat" where
  "n_runs n_times =
     (let n = max 1 (total_ones n_times div min_run_length)
      in if n > length (possible_starts n_times) then length (possible_starts n_times) else n)"

text \<open>
  \<open>np.random.choice(possible_starts, size=n_runs, replace=False)\<close> may return any
  sequence of \<open>n_runs\<close> pairwise different elements of \<open>possible_starts\<close>. The draw is an
  argument of the model, and \<open>choice_without_replacement\<close> says which draws can occur.
\<close>

definition choice_without_replacement :: "nat list \<Rightarrow> nat \<Rightarrow> nat list \<Rightarrow> bool" where
  "choice_without_replacement population n starts =
     (length starts = n \<and> distinct starts \<and> list_all (\<lambda>s. s \<in> set population) starts)"

text \<open>\<open>row[start:start + run_length] = 1.0\<close> on one row; a slice stops at the row's end.\<close>

definition set_run :: "nat \<Rightarrow> nat \<Rightarrow> nat list \<Rightarrow> nat list" where
  "set_run start run_length row =
     take start row
       @ replicate (min (start + run_length) (length row) - start) 1
       @ drop (start + run_length) row"

definition model_binary_example :: "nat \<times> nat \<Rightarrow> nat list \<Rightarrow> nat list list" where
  "model_binary_example raw_shape starts =
     (let (n_channels, n_times) = raw_shape;
          mask = replicate n_channels (replicate n_times 0)
      in foldl (\<lambda>mask start. map (set_run start min_run_length) mask) mask starts)"

text \<open>The lengths of the maximal blocks of 1s of a row, from left to right.\<close>

fun run_lengths_from :: "nat \<Rightarrow> nat list \<Rightarrow> nat list" where
  "run_lengths_from cur [] = (if cur = 0 then [] else [cur])"
| "run_lengths_from cur (v # vs) =
     (if v = 1 then run_lengths_from (Suc cur) vs
      else if cur = 0 then run_lengths_from 0 vs
      else cur # run_lengths_from 0 vs)"

definition run_lengths :: "nat list \<Rightarrow> nat list" where
  "run_lengths row = run_lengths_from 0 row"

section \<open>Neural monitoring: the services (services.py, models.py)\<close>

text \<open>
  Timestamps (\<open>datetime\<close>) are whole microseconds; Python floats are reals. The exceptions
  the services raise:
\<close>

datatype py_error = ValueError string | OtherError string

text \<open>
  The columns of \<open>Patient\<close> and \<open>DataIngestion\<close> that the services read or write.
\<close>

record patient =
  patient_id :: string
  patient_name :: string
  stasis_pod_id :: string
  stasis_start_time :: int
  is_active :: bool
  last_data_received :: "int option"

record data_ingestion =
  di_patient_id :: string
  di_timestamp :: int
  channels :: int
  samples :: int
  anomaly_count :: int
  adr_mean :: "real option"

text \<open>An entry of the notification buffer and the handle of an active mock stream.\<close>

record notification =
  n_timestamp :: int
  n_anomaly_count :: int
  n_adr_mean :: real
  n_total_samples :: int

record stream_handle =
  stream_id :: string
  active :: bool
  start_time :: int

text \<open>
  The database session together with the in-memory dictionaries of
  \<open>DataIngestionService\<close>.
\<close>

record service =
  patients :: "patient list"
  data_ingestions :: "data_ingestion list"
  active_streams :: "string \<rightharpoonup> stream_handle"
  notification_accumulator :: "string \<rightharpoonup> notification list"

text \<open>A numpy array: its shape and its cells.\<close>

record ndarray =
  shape :: "nat list"
  cells :: "real list"

definition get_patient :: "service \<Rightarrow> string \<Rightarrow> patient option" where
  "get_patient st pid = find (\<lambda>p. patient_id p = pid) (patients st)"

fun set_last_data_received :: "string \<Rightarrow> int \<Rightarrow> patient list \<Rightarrow> patient list" where
  "set_last_data_received pid ts [] = []"
| "set_last_data_received pid ts (p # ps) =
     (if patient_id p = pid then p\<lparr>last_data_received := Some ts\<rparr> # ps
      else p # set_last_data_received pid ts ps)"

definition update_last_data_received :: "service \<Rightarrow> string \<Rightarrow> int \<Rightarrow> service" where
  "update_last_data_received st pid ts =
     (case get_patient st pid of
        None \<Rightarrow> st
      | Some p \<Rightarrow> st\<lparr>patients := set_last_data_received pid ts (patients st)\<rparr>)"

subsection \<open>Patient summary\<close>




definition np_mean :: "real list \<Rightarrow> real" where
  "np_mean xs = sum_list xs / real (length xs)"





subsection \<open>Data ingestion\<close>

record processing_results =
  pr_adr_mean :: real
  pr_anomaly_count :: int
  pr_anomaly_mask :: "nat list list"
  pr_total_samples :: nat

record ingest_result =
  ir_status :: string
  ir_anomaly_count :: int
  ir_adr_mean :: real
  ir_samples_processed :: nat

text \<open>
  \<open>_process_eeg_data\<close>. The spectral computation \<open>float(np.mean(calculate_adr(data)))\<close>
  rests on scipy and is the argument \<open>calculate_adr_mean\<close>; \<open>starts\<close> is the random draw of
  the mask generator.
\<close>

definition process_eeg_data ::
  "(ndarray \<Rightarrow> py_error + real) \<Rightarrow> nat list \<Rightarrow> ndarray \<Rightarrow> py_error + processing_results" where
  "process_eeg_data calculate_adr_mean starts data =
     (case calculate_adr_mean data of
        Inl e \<Rightarrow> Inl e
      | Inr m \<Rightarrow>
          let anomaly_mask = model_binary_example (shape data ! 0, shape data ! 1) starts
          in Inr \<lparr>pr_adr_mean = m,
                  pr_anomaly_count = int (sum_list (map sum_list anomaly_mask)),
                  pr_anomaly_mask = anomaly_mask,
                  pr_total_samples = shape data ! 1\<rparr>)"

definition add_to_notification_buffer ::
  "int \<Rightarrow> service \<Rightarrow> string \<Rightarrow> processing_results \<Rightarrow> service" where
  "add_to_notification_buffer now st pid results =
     (let buffer = (case notification_accumulator st pid of None \<Rightarrow> [] | Some ns \<Rightarrow> ns)
      in st\<lparr>notification_accumulator := (notification_accumulator st)
             (pid \<mapsto> buffer @ [\<lparr>n_timestamp = now,
                                  n_anomaly_count = pr_anomaly_count results,
                                  n_adr_mean = pr_adr_mean results,
                                  n_total_samples = int (pr_total_samples results)\<rparr>])\<rparr>)"

text \<open>
  \<open>ingest_data\<close> returns the outcome (the raised exception or the result dictionary)
  together with the state the call leaves behind. The \<open>metadata\<close> argument is never read.
\<close>

definition ingest_data ::
  "(ndarray \<Rightarrow> py_error + real) \<Rightarrow> nat list \<Rightarrow> int \<Rightarrow> service \<Rightarrow> string \<Rightarrow> int \<Rightarrow> ndarray
     \<Rightarrow> (py_error + ingest_result) \<times> service" where
  "ingest_data calculate_adr_mean starts now st pid ts data =
     (case get_patient st pid of
        None \<Rightarrow> (Inl (ValueError (''Patient '' @ pid @ '' not found'')), st)
      | Some p \<Rightarrow>
          if length (shape data) \<noteq> 2
          then (Inl (ValueError ''Data must be 2D array [channels x samples]''), st)
          else if shape data ! 0 \<noteq> 21
          then (Inl (ValueError ''Expected 21 EEG channels''), st)
          else
            (case process_eeg_data calculate_adr_mean starts data of
               Inl e \<Rightarrow> (Inl e, st)
             | Inr results \<Rightarrow>
                 let ingestion = \<lparr>di_patient_id = pid,
                                  di_timestamp = ts,
                                  channels = int (shape data ! 0),
                                  samples = int (shape data ! 1),
                                  anomaly_count = pr_anomaly_count results,
                                  adr_mean = Some (pr_adr_mean results)\<rparr>;
                     st1 = st\<lparr>data_ingestions := data_ingestions st @ [ingestion]\<rparr>;
                     st2 = update_last_data_received st1 pid ts;
                     st3 = add_to_notification_buffer now st2 pid results
                 in (Inr \<lparr>ir_status = ''success'',
                          ir_anomaly_count = pr_anomaly_count results,
                          ir_adr_mean = pr_adr_mean results,
                          ir_samples_processed = shape data ! 1\<rparr>, st3)))"

subsection \<open>Mock streams\<close>

text \<open>
  \<open>start_mock_stream\<close> and \<open>stop_mock_stream\<close> on the dictionary of active streams;
  \<open>clock\<close> is \<open>int(time.time())\<close>. The background thread that \<open>start_mock_stream\<close> spawns is
  not part of the model.
\<close>

definition start_mock_stream ::
  "int \<Rightarrow> int \<Rightarrow> service \<Rightarrow> string \<Rightarrow> (py_error + string) \<times> service" where
  "start_mock_stream clock now st pid =
     (if pid \<in> dom (active_streams st)
      then (Inl (ValueError (''Stream already active for patient '' @ pid)), st)
      else
        let sid = ''stream_'' @ pid @ ''_'' @ str_int clock
        in (Inr sid,
            st\<lparr>active_streams := (active_streams st)
                 (pid \<mapsto> \<lparr>stream_id = sid, active = True, start_time = now\<rparr>)\<rparr>))"

definition stop_mock_stream :: "service \<Rightarrow> string \<Rightarrow> (py_error + unit) \<times> service" where
  "stop_mock_stream st pid =
     (case active_streams st pid of
        Some h \<Rightarrow>
          (Inr (),
           st\<lparr>active_streams := ((active_streams st)(pid \<mapsto> h\<lparr>active := False\<rparr>))(pid := None)\<rparr>)
      | None \<Rightarrow> (Inr (), st))"

subsection \<open>Statistics\<close>

record adr_summary =
  adr_mean_value :: real
  adr_std :: real
  adr_min :: real
  adr_max :: real
  adr_count :: nat

record anomaly_summary =
  total_anomalies :: int
  total_samples :: int
  anomaly_rate :: real
  data_points :: nat

text \<open>
  The \<open>time_range\<close> entry. \<open>isoformat()\<close> renders a timestamp as text without losing
  anything, so the entry holds the timestamps themselves.
\<close>

record time_range_entry =
  tr_start :: int
  tr_end :: int
  duration_hours :: real

text \<open>The result dictionary: each key is present or absent.\<close>

record statistics =
  message :: "string option"
  adr :: "adr_summary option"
  anomalies :: "anomaly_summary option"
  time_range :: "time_range_entry option"

definition np_std :: "real list \<Rightarrow> real" where
  "np_std xs = sqrt (np_mean (map (\<lambda>x. (x - np_mean xs)\<^sup>2) xs))"

text \<open>The query of \<open>compute_statistics\<close>: the patient's records in the range, by time.\<close>

definition data_records :: "service \<Rightarrow> string \<Rightarrow> int \<Rightarrow> int \<Rightarrow> data_ingestion list" where
  "data_records st pid start_t end_t =
     sort_key di_timestamp
       (filter (\<lambda>d. di_patient_id d = pid \<and> di_timestamp d \<ge> start_t \<and> di_timestamp d \<le> end_t)
          (data_ingestions st))"

definition compute_statistics ::
  "service \<Rightarrow> string \<Rightarrow> int \<Rightarrow> int \<Rightarrow> string list \<Rightarrow> statistics" where
  "compute_statistics st pid start_t end_t metrics =
     (let records = data_records st pid start_t end_t in
      if records = []
      then \<lparr>message = Some ''No data available for the specified time range'',
            adr = None, anomalies = None, time_range = None\<rparr>
      else
        let adr_values = List.map_filter adr_mean records;
            adr_entry =
              (if ''adr'' \<in> set metrics \<and> adr_values \<noteq> []
               then Some \<lparr>adr_mean_value = np_mean adr_values,
                          adr_std = np_std adr_values,
                          adr_min = Min (set adr_values),
                          adr_max = Max (set adr_values),
                          adr_count = length adr_values\<rparr>
               else None);
            anomalies_total = sum_list (map anomaly_count records);
            samples_total = sum_list (map samples records);
            anomalies_entry =
              (if ''anomalies'' \<in> set metrics
               then Some \<lparr>total_anomalies = anomalies_total,
                          total_samples = samples_total,
                          anomaly_rate =
                            (if samples_total > 0
                             then real_of_int anomalies_total / real_of_int samples_total else 0),
                          data_points = length records\<rparr>
               else None)
        in \<lparr>message = None,
            adr = adr_entry,
            anomalies = anomalies_entry,
            time_range = Some \<lparr>tr_start = start_t, tr_end = end_t,
                                duration_hours =
                                  (real_of_int (end_t - start_t) / 1000000) / 3600\<rparr>\<rparr>)"

subsection \<open>Sample states\<close>

definition demo_patient :: patient where
  "demo_patient = \<lparr>patient_id = ''P1'', patient_name = ''Ada'', stasis_pod_id = ''POD-1'',
     stasis_start_time = 0, is_active = True, last_data_received = None\<rparr>"

definition demo_record :: "int \<Rightarrow> int \<Rightarrow> data_ingestion" where
  "demo_record ts n = \<lparr>di_patient_id = ''P1'', di_timestamp = ts, channels = 21, samples = 1280,
     anomaly_count = n, adr_mean = Some 1\<rparr>"

text \<open>A registered patient without data, and the same patient with two records and a stream.\<close>

definition demo_service :: service where
  "demo_service = \<lparr>patients = [demo_patient], data_ingestions = [],
     active_streams = Map.empty, notification_accumulator = Map.empty\<rparr>"

definition busy_service :: service where
  "busy_service = \<lparr>patients = [demo_patient],
     data_ingestions = [demo_record 100 0, demo_record 200 1],
     active_streams = [''P1'' \<mapsto> \<lparr>stream_id = ''stream_P1_0'', active = True, start_time = 0\<rparr>],
     notification_accumulator = Map.empty\<rparr>"

section \<open>Tool servers (mcp\_base.py)\<close>

text \<open>
  What a call can raise. \<open>TypeError\<close> and \<open>OtherException\<close> are subclasses of
  \<open>Exception\<close>, which \<open>except Exception\<close> catches; \<open>SystemExit\<close> and
  \<open>KeyboardInterrupt\<close> derive from \<open>BaseException\<close> only, and it lets them pass.
  \<open>str_raised\<close> is \<open>str(e)\<close>.
\<close>

datatype raised =
  TypeError string | OtherException string | SystemExit string | KeyboardInterrupt

fun is_Exception :: "raised \<Rightarrow> bool" where
  "is_Exception (TypeError m) = True"
| "is_Exception (OtherException m) = True"
| "is_Exception (SystemExit m) = False"
| "is_Exception KeyboardInterrupt = False"

fun str_raised :: "raised \<Rightarrow> string" where
  "str_raised (TypeError m) = m"
| "str_raised (OtherException m) = m"
| "str_raised (SystemExit m) = m"
| "str_raised KeyboardInterrupt = []"

text \<open>
  A handler is called with the keyword arguments and either returns a value (\<open>Inr\<close>) or
  raises (\<open>Inl\<close>).
\<close>

record 'v tool =
  tool_name :: string
  tool_description :: string
  tool_parameters :: 'v
  handler :: "(string \<times> 'v) list \<Rightarrow> raised + 'v"

record 'v mcp_server =
  server_name :: string
  server_description :: string
  tools :: "string \<rightharpoonup> 'v tool"

text \<open>The result dictionary of \<open>execute_tool\<close>: each key is present or absent.\<close>

record 'v tool_result =
  success :: bool
  result :: "'v option"
  error :: "string option"
  tool :: "string option"
  server :: "string option"

definition apostrophe :: string where
  "apostrophe = [CHR 0x27]"

definition add_tool ::
  "'v mcp_server \<Rightarrow> string \<Rightarrow> string \<Rightarrow> 'v \<Rightarrow> ((string \<times> 'v) list \<Rightarrow> raised + 'v) \<Rightarrow> 'v mcp_server" where
  "add_tool srv n d ps h =
     srv\<lparr>tools := (tools srv)(n \<mapsto> \<lparr>tool_name = n, tool_description = d,
                                    tool_parameters = ps, handler = h\<rparr>)\<rparr>"

text \<open>
  Both methods have the signature \<open>execute_tool(self, tool_name, **kwargs)\<close> and are
  called as \<open>execute_tool(name, **arguments)\<close>. A keyword that is named like one of the two
  positional parameters cannot be bound: the call raises \<open>TypeError\<close> for the first such
  keyword, before the body runs.
\<close>

definition bind_keywords :: "string \<Rightarrow> (string \<times> 'v) list \<Rightarrow> raised + unit" where
  "bind_keywords qualname kwargs =
     (case find (\<lambda>(k, v). k = ''self'' \<or> k = ''tool_name'') kwargs of
        Some (k, v) \<Rightarrow>
          Inl (TypeError (qualname @ ''() got multiple values for argument ''
                          @ apostrophe @ k @ apostrophe))
      | None \<Rightarrow> Inr ())"

text \<open>
  \<open>MCPServer.execute_tool\<close>: \<open>Inl\<close> is an exception that leaves the call, \<open>Inr\<close> a
  returned dictionary.
\<close>

definition server_execute_tool ::
  "'v mcp_server \<Rightarrow> string \<Rightarrow> (string \<times> 'v) list \<Rightarrow> raised + 'v tool_result" where
  "server_execute_tool srv name kwargs =
     (case bind_keywords ''MCPServer.execute_tool'' kwargs of
        Inl e \<Rightarrow> Inl e
      | Inr u \<Rightarrow>
          (case tools srv name of
             None \<Rightarrow>
               Inr \<lparr>success = False, result = None,
                    error = Some (''Tool '' @ apostrophe @ name @ apostrophe
                                  @ '' not found in server ''
                                  @ apostrophe @ server_name srv @ apostrophe),
                    tool = None, server = None\<rparr>
           | Some t \<Rightarrow>
               (case handler t kwargs of
                  Inr v \<Rightarrow>
                    Inr \<lparr>success = True, result = Some v, error = None,
                         tool = Some name, server = Some (server_name srv)\<rparr>
                | Inl e \<Rightarrow>
                    if is_Exception e
                    then Inr \<lparr>success = False, result = None,
                              error = Some (''Error executing '' @ name @ '': '' @ str_raised e),
                              tool = Some name, server = Some (server_name srv)\<rparr>
                    else Inl e)))"

text \<open>
  \<open>MCPRegistry\<close>: the dictionary of servers in insertion order. Assigning to a key that is
  present replaces the value in place.
\<close>

type_synonym 'v mcp_registry = "(string \<times> 'v mcp_server) list"

fun dict_set :: "'k \<Rightarrow> 'a \<Rightarrow> ('k \<times> 'a) list \<Rightarrow> ('k \<times> 'a) list" where
  "dict_set k v [] = [(k, v)]"
| "dict_set k v ((k', v') # kvs) =
     (if k' = k then (k, v) # kvs else (k', v') # dict_set k v kvs)"

definition register_server :: "'v mcp_registry \<Rightarrow> 'v mcp_server \<Rightarrow> 'v mcp_registry" where
  "register_server servers srv = dict_set (server_name srv) srv servers"

text \<open>The loop of \<open>MCPRegistry.execute_tool\<close> over the servers, and the method itself.\<close>

fun execute_on_first ::
  "'v mcp_registry \<Rightarrow> string \<Rightarrow> (string \<times> 'v) list \<Rightarrow> raised + 'v tool_result" where
  "execute_on_first [] name kwargs =
     Inr \<lparr>success = False, result = None,
          error = Some (''Tool '' @ apostrophe @ name @ apostrophe
                        @ '' not found in any registered server''),
          tool = None, server = None\<rparr>"
| "execute_on_first ((k, srv) # servers) name kwargs =
     (if name \<in> dom (tools srv) then server_execute_tool srv name kwargs
      else execute_on_first servers name kwargs)"

definition registry_execute_tool ::
  "'v mcp_registry \<Rightarrow> string \<Rightarrow> (string \<times> 'v) list \<Rightarrow> raised + 'v tool_result" where
  "registry_execute_tool servers name kwargs =
     (case bind_keywords ''MCPRegistry.execute_tool'' kwargs of
        Inl e \<Rightarrow> Inl e
      | Inr u \<Rightarrow> execute_on_first servers name kwargs)"

text \<open>
  A sample server: a division tool that raises on a zero divisor, and a tool whose handler
  ends the process with \<open>sys.exit\<close>.
\<close>

definition divide_handler :: "(string \<times> int) list \<Rightarrow> raised + int" where
  "divide_handler kwargs =
     (case (map_of kwargs ''a'', map_of kwargs ''b'') of
        (Some a, Some b) \<Rightarrow>
          if b = 0 then Inl (OtherException ''Cannot divide by zero'') else Inr (a div b)
      | _ \<Rightarrow> Inl (TypeError ''missing argument''))"

definition quit_handler :: "(string \<times> int) list \<Rightarrow> raised + int" where
  "quit_handler kwargs = Inl (SystemExit ''0'')"

definition calculator :: "int mcp_server" where
  "calculator =
     add_tool
       (add_tool \<lparr>server_name = ''calculator'', server_description = ''arithmetic'',
                  tools = Map.empty\<rparr> ''divide'' ''Divide a by b'' 0 divide_handler)
       ''quit'' ''Leave the calculator'' 0 quit_handler"

section \<open>MNIST data loader (data\_loader.py)\<close>

text \<open>
  A Python float: a finite value, an infinity, or not-a-number. Every comparison with
  not-a-number is false.
\<close>

datatype pyfloat = Finite real | PosInf | NegInf | NaN

fun float_le :: "pyfloat \<Rightarrow> pyfloat \<Rightarrow> bool" where
  "float_le NaN y = False"
| "float_le x NaN = False"
| "float_le NegInf y = True"
| "float_le x PosInf = True"
| "float_le (Finite a) (Finite b) = (a \<le> b)"
| "float_le x y = False"

datatype loader_error = ValidationError string | DataLoadingError string

text \<open>What the constructor does to the file system.\<close>

datatype fs_event = Mkdir string

record 'c loader_args =
  data_dir :: string
  batch_size :: int
  validation_split :: pyfloat
  num_workers :: int
  pin_memory :: bool
  download :: bool
  transform_config :: "'c option"

definition validate_parameters :: "'c loader_args \<Rightarrow> loader_error + unit" where
  "validate_parameters a =
     (if batch_size a \<le> 0 then Inl (ValidationError ''Batch size must be positive'')
      else if \<not> (float_le (Finite 0) (validation_split a) \<and> float_le (validation_split a) (Finite 1))
      then Inl (ValidationError ''Validation split must be between 0 and 1'')
      else if num_workers a < 0 then Inl (ValidationError ''Number of workers cannot be negative'')
      else Inr ())"

text \<open>
  \<open>_setup_data_directory\<close>: \<open>mkdir\<close> is the file system's answer to
  \<open>mkdir(parents=True, exist_ok=True)\<close>, \<open>Inl\<close> an \<open>OSError\<close> with its text.
\<close>

definition setup_data_directory ::
  "(string \<Rightarrow> string + unit) \<Rightarrow> 'c loader_args \<Rightarrow> (loader_error + unit) \<times> fs_event list" where
  "setup_data_directory mkdir a =
     (case mkdir (data_dir a) of
        Inl e \<Rightarrow> (Inl (DataLoadingError (''Failed to create data directory '' @ data_dir a
                                          @ '': '' @ e)), [Mkdir (data_dir a)])
      | Inr u \<Rightarrow> (Inr (), [Mkdir (data_dir a)]))"

text \<open>
  \<open>_setup_transforms\<close>: \<open>build\<close> stands for the construction of the torchvision
  transforms, \<open>Inl\<close> an exception it raises.
\<close>

definition setup_transforms ::
  "('c option \<Rightarrow> string + 't) \<Rightarrow> 'c loader_args \<Rightarrow> loader_error + 't" where
  "setup_transforms build a =
     (case build (transform_config a) of
        Inl e \<Rightarrow> Inl (DataLoadingError (''Failed to setup transforms: '' @ e))
      | Inr t \<Rightarrow> Inr t)"

text \<open>
  The constructor: the loader with its transforms, or the exception, and the file-system
  events up to that point.
\<close>

definition mnist_data_loader_init ::
  "(string \<Rightarrow> string + unit) \<Rightarrow> ('c option \<Rightarrow> string + 't) \<Rightarrow> 'c loader_args
     \<Rightarrow> (loader_error + 'c loader_args \<times> 't) \<times> fs_event list" where
  "mnist_data_loader_init mkdir build a =
     (case validate_parameters a of
        Inl e \<Rightarrow> (Inl e, [])
      | Inr u \<Rightarrow>
          (case setup_data_directory mkdir a of
             (Inl e, events) \<Rightarrow> (Inl e, events)
           | (Inr u, events) \<Rightarrow>
               (case setup_transforms build a of
                  Inl e \<Rightarrow> (Inl e, events)
                | Inr t \<Rightarrow> (Inr (a, t), events))))"

definition default_args :: "unit loader_args" where
  "default_args = \<lparr>data_dir = ''./data'', batch_size = 64, validation_split = Finite 0.1,
     num_workers = 4, pin_memory = True, download = True, transform_config = None\<rparr>"

section \<open>Ticket routing workflow (workflow\_engine.py)\<close>

text \<open>\<open>WorkflowState\<close>, the dictionary that every node receives and returns.\<close>

record workflow_state =
  ticket_content :: string
  customer_tier :: string
  urgency :: string
  category :: string
  assigned_team :: string
  escalated :: bool
  resolution_steps :: "string list"
  final_response :: string
  processing_log :: "string list"

text \<open>
  The language model is outside the program: \<open>analysis\<close> is the text it answers in
  \<open>analyze_ticket\<close>, \<open>reply\<close> the text it answers in \<open>generate_response\<close>, and
  \<open>ticket_hash\<close> is \<open>hash(ticket_content)\<close>.
\<close>

record llm_env =
  analysis :: string
  reply :: string
  ticket_hash :: int

definition str_bool :: "bool \<Rightarrow> string" where
  "str_bool b = (if b then ''True'' else ''False'')"

definition log_append :: "string \<Rightarrow> workflow_state \<Rightarrow> workflow_state" where
  "log_append line st = st\<lparr>processing_log := processing_log st @ [line]\<rparr>"

definition analyze_ticket :: "llm_env \<Rightarrow> workflow_state \<Rightarrow> workflow_state" where
  "analyze_ticket env st =
     (let analysis_text = lower (analysis env);
          u = (if str_in ''critical'' analysis_text then ''critical''
               else if str_in ''high'' analysis_text then ''high''
               else if str_in ''medium'' analysis_text then ''medium''
               else ''low'');
          c = (if str_in ''billing'' analysis_text then ''billing''
               else if str_in ''technical'' analysis_text \<or> str_in ''bug'' analysis_text
               then ''technical''
               else if str_in ''feature'' analysis_text then ''feature_request''
               else ''complaint'')
      in log_append (''Analyzed ticket: '' @ u @ '' urgency, '' @ c @ '' category'')
           (st\<lparr>urgency := u, category := c\<rparr>))"

definition tier_keywords :: "(string \<times> string list) list" where
  "tier_keywords =
     [(''enterprise'', [''enterprise'', ''business'', ''company'', ''organization'']),
      (''pro'', [''pro'', ''professional'', ''premium'']),
      (''basic'', [''basic'', ''free'', ''trial''])]"

definition determine_customer_tier :: "workflow_state \<Rightarrow> workflow_state" where
  "determine_customer_tier st =
     (let content_lower = lower (ticket_content st);
          tier = (case find (\<lambda>(tier, keywords). list_ex (\<lambda>k. str_in k content_lower) keywords)
                         tier_keywords of
                    Some (tier, keywords) \<Rightarrow> tier
                  | None \<Rightarrow> ''basic'');
          st1 = st\<lparr>customer_tier := tier\<rparr>
      in log_append (''Customer tier: '' @ customer_tier st1) st1)"

definition route_by_urgency :: "workflow_state \<Rightarrow> workflow_state" where
  "route_by_urgency st = log_append (''Routing by urgency: '' @ urgency st) st"

definition route_urgency_condition :: "workflow_state \<Rightarrow> string" where
  "route_urgency_condition st = urgency st"

definition assign_team :: "workflow_state \<Rightarrow> workflow_state" where
  "assign_team st =
     (let team = (if category st = ''billing'' then ''billing''
                  else if category st = ''technical'' \<and> urgency st = ''high'' then ''support_l2''
                  else if category st = ''technical'' then ''support_l1''
                  else if category st = ''feature_request'' \<and> customer_tier st = ''enterprise''
                  then ''engineering''
                  else ''support_l1'');
          team = (if customer_tier st = ''enterprise'' \<and> team = ''support_l1''
                  then ''support_l2'' else team)
      in log_append (''Assigned to team: '' @ team) (st\<lparr>assigned_team := team\<rparr>))"

definition check_escalation :: "workflow_state \<Rightarrow> workflow_state" where
  "check_escalation st =
     (let escalate = False;
          escalate = (if urgency st = ''high'' \<and> customer_tier st = ''enterprise''
                      then True else escalate);
          escalate = (if category st = ''complaint'' \<and> str_in ''angry'' (lower (ticket_content st))
                      then True else escalate)
      in log_append (''Escalation check: '' @ str_bool escalate) (st\<lparr>escalated := escalate\<rparr>))"

definition escalation_condition :: "workflow_state \<Rightarrow> string" where
  "escalation_condition st = (if escalated st then ''escalate'' else ''continue'')"

definition generate_response :: "llm_env \<Rightarrow> workflow_state \<Rightarrow> workflow_state" where
  "generate_response env st =
     log_append ''Generated automated response'' (st\<lparr>final_response := reply env\<rparr>)"

definition newline :: string where
  "newline = [CHR 0x0A]"

definition escalate_to_human :: "llm_env \<Rightarrow> workflow_state \<Rightarrow> workflow_state" where
  "escalate_to_human env st =
     log_append ''Escalated to human agent''
       (st\<lparr>final_response :=
             ''This ticket has been escalated to our '' @ assigned_team st @ '' team due to its ''
             @ urgency st @ '' priority level.'' @ newline @ newline
             @ ''A human agent will contact you within 2 hours for '' @ customer_tier st
             @ '' customers.'' @ newline @ newline
             @ ''Reference ID: ESCALATED-'' @ str_int (ticket_hash env mod 10000)\<rparr>)"

definition auto_responses :: "(string \<times> string) list" where
  "auto_responses =
     [(''billing'', ''Please check your account dashboard for billing details. Contact us if you need further assistance.''),
      (''feature_request'', ''Thank you for your suggestion! We've added it to our product roadmap for review.''),
      (''technical'', ''Please try clearing your browser cache and refreshing. If the issue persists, contact our technical team.'')]"

definition auto_resolve :: "workflow_state \<Rightarrow> workflow_state" where
  "auto_resolve st =
     log_append ''Auto-resolved ticket''
       (st\<lparr>final_response :=
              (case map_of auto_responses (category st) of
                 Some r \<Rightarrow> r
               | None \<Rightarrow> ''Thank you for contacting us. Your request has been processed.''),
            assigned_team := ''auto_resolved''\<rparr>)"

text \<open>The graph that \<open>_build_workflow\<close> assembles: nodes, edges and conditional edges.\<close>

datatype node =
  AnalyzeTicket | DetermineCustomerTier | RouteByUrgency | AssignTeam | CheckEscalation
  | GenerateResponse | EscalateToHuman | AutoResolve | END

fun node_function :: "llm_env \<Rightarrow> node \<Rightarrow> workflow_state \<Rightarrow> workflow_state" where
  "node_function env AnalyzeTicket = analyze_ticket env"
| "node_function env DetermineCustomerTier = determine_customer_tier"
| "node_function env RouteByUrgency = route_by_urgency"
| "node_function env AssignTeam = assign_team"
| "node_function env CheckEscalation = check_escalation"
| "node_function env GenerateResponse = generate_response env"
| "node_function env EscalateToHuman = escalate_to_human env"
| "node_function env AutoResolve = auto_resolve"
| "node_function env END = (\<lambda>st. st)"

definition urgency_routes :: "(string \<times> node) list" where
  "urgency_routes =
     [(''critical'', EscalateToHuman), (''high'', AssignTeam), (''medium'', AssignTeam),
      (''low'', AutoResolve)]"

definition escalation_routes :: "(string \<times> node) list" where
  "escalation_routes = [(''escalate'', EscalateToHuman), (''continue'', GenerateResponse)]"

text \<open>The node that follows; \<open>None\<close> when a routing key has no destination.\<close>

fun successor :: "node \<Rightarrow> workflow_state \<Rightarrow> node option" where
  "successor AnalyzeTicket st = Some DetermineCustomerTier"
| "successor DetermineCustomerTier st = Some RouteByUrgency"
| "successor RouteByUrgency st = map_of urgency_routes (route_urgency_condition st)"
| "successor AssignTeam st = Some CheckEscalation"
| "successor CheckEscalation st = map_of escalation_routes (escalation_condition st)"
| "successor GenerateResponse st = Some END"
| "successor EscalateToHuman st = Some END"
| "successor AutoResolve st = Some END"
| "successor END st = None"

text \<open>
  Running the compiled graph from a node: the final state and the nodes visited, in
  order. The fuel is the number of steps the graph runtime allows; \<open>None\<close> is a run that
  exceeds it or meets a routing key without destination.
\<close>

fun run_graph ::
  "nat \<Rightarrow> llm_env \<Rightarrow> node \<Rightarrow> workflow_state \<Rightarrow> (workflow_state \<times> node list) option" where
  "run_graph fuel env END st = Some (st, [])"
| "run_graph 0 env n st = None"
| "run_graph (Suc fuel) env n st =
     (let st' = node_function env n st in
      case successor n st' of
        None \<Rightarrow> None
      | Some n' \<Rightarrow>
          (case run_graph fuel env n' st' of
             None \<Rightarrow> None
           | Some (final, visited) \<Rightarrow> Some (final, n # visited)))"

definition recursion_limit :: nat where
  "recursion_limit = 25"

definition initial_state :: "string \<Rightarrow> workflow_state" where
  "initial_state content =
     \<lparr>ticket_content = content, customer_tier = '''', urgency = '''', category = '''',
      assigned_team = '''', escalated = False, resolution_steps = [], final_response = '''',
      processing_log = []\<rparr>"

definition run_workflow :: "llm_env \<Rightarrow> string \<Rightarrow> (workflow_state \<times> node list) option" where
  "run_workflow env content = run_graph recursion_limit env AnalyzeTicket (initial_state content)"

record ticket_result =
  tr_ticket :: string
  tr_urgency :: string
  tr_category :: string
  tr_customer_tier :: string
  tr_assigned_team :: string
  tr_escalated :: bool
  tr_response :: string
  tr_processing_log :: "string list"

definition process_ticket :: "llm_env \<Rightarrow> string \<Rightarrow> ticket_result option" where
  "process_ticket env content =
     (case run_workflow env content of
        None \<Rightarrow> None
      | Some (r, visited) \<Rightarrow>
          Some \<lparr>tr_ticket = content, tr_urgency = urgency r, tr_category = category r,
                tr_customer_tier = customer_tier r, tr_assigned_team = assigned_team r,
                tr_escalated = escalated r, tr_response = final_response r,
                tr_processing_log = processing_log r\<rparr>)"

text \<open>A sample ticket and two answers of the language model.\<close>

definition angry_ticket :: string where
  "angry_ticket = ''This app is terrible! Nothing works and I am very angry about it!''"

definition low_complaint :: llm_env where
  "low_complaint = \<lparr>analysis = ''Urgency: low. Category: complaint. Sentiment: angry.'',
                    reply = ''We are sorry.'', ticket_hash = 424242\<rparr>"

definition high_complaint :: llm_env where
  "high_complaint = \<lparr>analysis = ''Urgency: HIGH. Category: complaint. Sentiment: angry.'',
                    reply = ''We are sorry.'', ticket_hash = 424242\<rparr>"


text \<open>The state on which the urgency routing decides.\<close>

definition routed_state :: "llm_env \<Rightarrow> string \<Rightarrow> workflow_state" where
  "routed_state env content =
     route_by_urgency (determine_customer_tier (analyze_ticket env (initial_state content)))"

section \<open>Vector store (vector\_store.py)\<close>

text \<open>
  Metadata values. A float is kept as its \<open>repr\<close> text; \<open>None\<close>, lists and dictionaries are
  the values that are not \<open>str\<close>, \<open>int\<close>, \<open>float\<close> or \<open>bool\<close>.
\<close>

datatype pyval =
  PNone | PBool bool | PInt int | PFloat string | PStr string
  | PList "pyval list" | PDict "(string \<times> pyval) list"

text \<open>\<open>isinstance(value, (str, int, float, bool))\<close> and \<open>str(value)\<close> on such a value.\<close>

fun is_primitive :: "pyval \<Rightarrow> bool" where
  "is_primitive (PStr s) = True"
| "is_primitive (PInt i) = True"
| "is_primitive (PFloat t) = True"
| "is_primitive (PBool b) = True"
| "is_primitive v = False"

fun str_value :: "pyval \<Rightarrow> string" where
  "str_value (PStr s) = s"
| "str_value (PInt i) = str_int i"
| "str_value (PFloat t) = t"
| "str_value (PBool b) = str_bool b"
| "str_value v = []"

text \<open>
  The chromadb collection is a library object. It is modelled as the table of its
  documents in insertion order; \<open>add\<close> appends a document under an id that is not present,
  \<open>get\<close> looks ids up, \<open>delete\<close> removes them.
\<close>

record document =
  doc_content :: string
  doc_metadata :: "(string \<times> string) list"

type_synonym collection = "(string \<times> document) list"

definition collection_add :: "collection \<Rightarrow> string \<Rightarrow> document \<Rightarrow> collection" where
  "collection_add col doc_id doc =
     (if doc_id \<in> fst ` set col then col else col @ [(doc_id, doc)])"

definition collection_get :: "collection \<Rightarrow> string \<Rightarrow> document list" where
  "collection_get col doc_id = map snd (filter (\<lambda>(i, d). i = doc_id) col)"

definition collection_delete :: "collection \<Rightarrow> string \<Rightarrow> collection" where
  "collection_delete col doc_id = filter (\<lambda>(i, d). i \<noteq> doc_id) col"

text \<open>
  \<open>add_document\<close>. \<open>json.dumps\<close> is the standard library's and is the argument \<open>dumps\<close>;
  \<open>uuid\<close> is the text of the identifier that \<open>uuid.uuid4()\<close> would produce. An absent or
  empty \<open>doc_id\<close> is replaced by it.
\<close>

definition chroma_metadata ::
  "(pyval \<Rightarrow> string) \<Rightarrow> (string \<times> pyval) list \<Rightarrow> (string \<times> string) list" where
  "chroma_metadata dumps metadata =
     map (\<lambda>(key, v). (key, if is_primitive v then str_value v else dumps v)) metadata"

definition add_document ::
  "(pyval \<Rightarrow> string) \<Rightarrow> string \<Rightarrow> collection \<Rightarrow> string \<Rightarrow> (string \<times> pyval) list
     \<Rightarrow> string option \<Rightarrow> string \<times> collection" where
  "add_document dumps uuid col content metadata doc_id =
     (let doc_id = (case doc_id of None \<Rightarrow> uuid | Some i \<Rightarrow> if i = [] then uuid else i)
      in (doc_id,
          collection_add col doc_id
            \<lparr>doc_content = content, doc_metadata = chroma_metadata dumps metadata\<rparr>))"

text \<open>
  Reading back: \<open>json.loads\<close> is the argument \<open>loads\<close>, \<open>None\<close> its \<open>JSONDecodeError\<close>; a
  value that does not decode is returned as the stored text.
\<close>

definition parse_metadata ::
  "(string \<Rightarrow> pyval option) \<Rightarrow> (string \<times> string) list \<Rightarrow> (string \<times> pyval) list" where
  "parse_metadata loads metadata =
     map (\<lambda>(key, v). (key, case loads v of Some x \<Rightarrow> x | None \<Rightarrow> PStr v)) metadata"

record retrieved =
  r_id :: string
  r_content :: string
  r_metadata :: "(string \<times> pyval) list"

definition get_document ::
  "(string \<Rightarrow> pyval option) \<Rightarrow> collection \<Rightarrow> string \<Rightarrow> retrieved option" where
  "get_document loads col doc_id =
     (case collection_get col doc_id of
        [] \<Rightarrow> None
      | doc # rest \<Rightarrow>
          Some \<lparr>r_id = doc_id, r_content = doc_content doc,
                r_metadata = parse_metadata loads (doc_metadata doc)\<rparr>)"

definition delete_document :: "collection \<Rightarrow> string \<Rightarrow> bool \<times> collection" where
  "delete_document col doc_id = (True, collection_delete col doc_id)"

definition list_documents ::
  "(string \<Rightarrow> pyval option) \<Rightarrow> collection \<Rightarrow> nat \<Rightarrow> retrieved list" where
  "list_documents loads col limit =
     map (\<lambda>(doc_id, doc).
            \<lparr>r_id = doc_id,
             r_content = (if length (doc_content doc) > 200
                          then take 200 (doc_content doc) @ ''...'' else doc_content doc),
             r_metadata = parse_metadata loads (doc_metadata doc)\<rparr>)
         (take limit col)"

text \<open>A decoder that knows the three JSON literals and nothing else.\<close>

definition literal_loads :: "string \<Rightarrow> pyval option" where
  "literal_loads s =
     (if s = ''true'' then Some (PBool True)
      else if s = ''false'' then Some (PBool False)
      else if s = ''null'' then Some PNone
      else None)"

section \<open>Readiness score: proofs\<close>

lemma foldl_penalise:
  "foldl penalise b issues =
     b - 20 * count_severity ''critical'' issues
       - 10 * count_severity ''warning'' issues
       - 5 * count_severity ''info'' issues"
proof (induction issues arbitrary: b)
  case Nil
  show ?case by (simp add: count_severity_def)
next
  case (Cons i issues)
  show ?case
    unfolding foldl_Cons Cons.IH
    by (simp add: penalise_def count_severity_def)
qed

text \<open>
  C8. The deployment-readiness score is
  \<open>max(0, 100 - 20 * criticals - 10 * warnings - 5 * infos)\<close>; one critical, one warning
  and one info issue score 65.
\<close>

theorem readiness_score_formula:
  "calculate_readiness_score issues =
     max 0 (100 - 20 * count_severity ''critical'' issues
                - 10 * count_severity ''warning'' issues
                - 5 * count_severity ''info'' issues)
   \<and> calculate_readiness_score
        [\<lparr>severity = ''critical'', category = ''dependencies'', message = ''m1'',
          file_path = None, line_number = None\<rparr>,
         \<lparr>severity = ''warning'', category = ''deployment'', message = ''m2'',
          file_path = None, line_number = None\<rparr>,
         \<lparr>severity = ''info'', category = ''deployment'', message = ''m3'',
          file_path = None, line_number = None\<rparr>] = 65"
proof
  show "calculate_readiness_score issues =
     max 0 (100 - 20 * count_severity ''critical'' issues
                - 10 * count_severity ''warning'' issues
                - 5 * count_severity ''info'' issues)"
    unfolding calculate_readiness_score_def foldl_penalise by (rule refl)
next
  show "calculate_readiness_score
        [\<lparr>severity = ''critical'', category = ''dependencies'', message = ''m1'',
          file_path = None, line_number = None\<rparr>,
         \<lparr>severity = ''warning'', category = ''deployment'', message = ''m2'',
          file_path = None, line_number = None\<rparr>,
         \<lparr>severity = ''info'', category = ''deployment'', message = ''m3'',
          file_path = None, line_number = None\<rparr>] = 65"
    by (simp add: calculate_readiness_score_def penalise_def)
qed

section \<open>Neural monitoring: proofs\<close>

text \<open>
  C1. Two runs are asked for when the input has 400 samples, and the draw \<open>[0, 5]\<close> is one
  that sampling without replacement can return. The two runs then overlap: every channel
  holds a single block of 15 ones, neither two blocks of 10 nor 20 ones.
\<close>

theorem model_binary_example_overlapping_draw:
  "choice_without_replacement (possible_starts 400) (n_runs 400) [0, 5]
   \<and> n_runs 400 = 2
   \<and> run_lengths (model_binary_example (21, 400) [0, 5] ! 0) = [15]
   \<and> map sum_list (model_binary_example (21, 400) [0, 5]) = replicate 21 15"
proof -
  have "choice_without_replacement (possible_starts 400) (n_runs 400) [0, 5]"
    by (simp add: choice_without_replacement_def possible_starts_def n_runs_def total_ones_def
          min_run_length_def)
  moreover have "n_runs 400 = 2"
    by (simp add: possible_starts_def n_runs_def total_ones_def min_run_length_def)
  moreover have "run_lengths (model_binary_example (21, 400) [0, 5] ! 0) = [15]"
    by code_simp
  moreover have "map sum_list (model_binary_example (21, 400) [0, 5]) = replicate 21 15"
    by code_simp
  ultimately show ?thesis by blast
qed

text \<open>
  C2. An array that is not two-dimensional, or whose first dimension is not 21, makes
  \<open>ingest_data\<close> raise \<open>ValueError\<close> and leaves the whole state as it was: no record is
  stored, no patient is touched, no notification is buffered.
\<close>

theorem ingest_data_rejects_bad_shape:
  assumes "length (shape data) \<noteq> 2 \<or> shape data ! 0 \<noteq> 21"
  shows "\<exists>msg. ingest_data calculate_adr_mean starts now st pid ts data
           = (Inl (ValueError msg), st)"
  using assms by (auto simp: ingest_data_def split: option.splits)

theorem ingest_data_rejects_bad_shape_witness:
  "shape \<lparr>shape = [20, 100], cells = []\<rparr> ! 0 \<noteq> 21 \<and>
   (\<exists>msg. ingest_data (\<lambda>d. Inr 1) [] 7 demo_service ''P1'' 5 \<lparr>shape = [20, 100], cells = []\<rparr>
      = (Inl (ValueError msg), demo_service))"
  using ingest_data_rejects_bad_shape
    [of "\<lparr>shape = [20, 100], cells = []\<rparr>" "\<lambda>d. Inr 1" "[]" 7 demo_service "''P1''" 5]
  by simp




text \<open>
  C4, as stated, fails: without records in the range the result is the message alone and
  carries no time range.
\<close>

theorem compute_statistics_no_data_counterexample:
  "time_range (compute_statistics demo_service ''P1'' 0 3600000000 [''adr'', ''anomalies'']) = None"
  by (simp add: compute_statistics_def data_records_def demo_service_def)

lemma data_records_empty:
  "data_records st pid start_t end_t = [] \<longleftrightarrow>
      filter (\<lambda>d. di_patient_id d = pid \<and> start_t \<le> di_timestamp d \<and> di_timestamp d \<le> end_t)
        (data_ingestions st) = []"
proof -
  have "length (data_records st pid start_t end_t) =
      length (filter (\<lambda>d. di_patient_id d = pid \<and> start_t \<le> di_timestamp d
                           \<and> di_timestamp d \<le> end_t) (data_ingestions st))"
    unfolding data_records_def by (rule length_sort)
  then have "length (data_records st pid start_t end_t) = 0 \<longleftrightarrow>
      length (filter (\<lambda>d. di_patient_id d = pid \<and> start_t \<le> di_timestamp d
                           \<and> di_timestamp d \<le> end_t) (data_ingestions st)) = 0"
    by (rule arg_cong)
  then show ?thesis
    by (simp only: length_0_conv)
qed

text \<open>
  C4, amended. When at least one ingestion record of the patient has its timestamp
  between the start and the end of the range, both included, the result has no message
  and echoes the range with its duration in hours; when none has, the result is exactly
  the "no data" message.
\<close>

theorem compute_statistics_time_range:
  "(filter (\<lambda>d. di_patient_id d = pid \<and> start_t \<le> di_timestamp d \<and> di_timestamp d \<le> end_t)
      (data_ingestions st) \<noteq> [] \<longrightarrow>
      time_range (compute_statistics st pid start_t end_t metrics) =
        Some \<lparr>tr_start = start_t, tr_end = end_t,
              duration_hours = (real_of_int (end_t - start_t) / 1000000) / 3600\<rparr>
      \<and> message (compute_statistics st pid start_t end_t metrics) = None)
   \<and> (filter (\<lambda>d. di_patient_id d = pid \<and> start_t \<le> di_timestamp d \<and> di_timestamp d \<le> end_t)
        (data_ingestions st) = [] \<longrightarrow>
        compute_statistics st pid start_t end_t metrics =
          \<lparr>message = Some ''No data available for the specified time range'',
           adr = None, anomalies = None, time_range = None\<rparr>)"
proof (cases "data_records st pid start_t end_t = []")
  case True
  then have "compute_statistics st pid start_t end_t metrics =
          \<lparr>message = Some ''No data available for the specified time range'',
           adr = None, anomalies = None, time_range = None\<rparr>"
    by (simp add: compute_statistics_def)
  then show ?thesis
    using True data_records_empty [of st pid start_t end_t] by simp
next
  case False
  then have "time_range (compute_statistics st pid start_t end_t metrics) =
        Some \<lparr>tr_start = start_t, tr_end = end_t,
              duration_hours = (real_of_int (end_t - start_t) / 1000000) / 3600\<rparr>"
    and "message (compute_statistics st pid start_t end_t metrics) = None"
    by (simp_all add: compute_statistics_def Let_def)
  then show ?thesis
    using False data_records_empty [of st pid start_t end_t] by simp
qed

theorem compute_statistics_time_range_witness:
  "filter (\<lambda>d. di_patient_id d = ''P1'' \<and> 0 \<le> di_timestamp d \<and> di_timestamp d \<le> 7200000000)
      (data_ingestions busy_service) \<noteq> [] \<and>
   time_range (compute_statistics busy_service ''P1'' 0 7200000000 [''anomalies'']) =
     Some \<lparr>tr_start = 0, tr_end = 7200000000, duration_hours = 2\<rparr> \<and>
   filter (\<lambda>d. di_patient_id d = ''P1'' \<and> 0 \<le> di_timestamp d \<and> di_timestamp d \<le> 7200000000)
      (data_ingestions demo_service) = [] \<and>
   message (compute_statistics demo_service ''P1'' 0 7200000000 [''anomalies'']) =
     Some ''No data available for the specified time range''"
  using compute_statistics_time_range [of "''P1''" 0 7200000000 busy_service "[''anomalies'']"]
    compute_statistics_time_range [of "''P1''" 0 7200000000 demo_service "[''anomalies'']"]
  by (simp add: busy_service_def demo_service_def demo_record_def)

text \<open>
  C10. \<open>stop_mock_stream\<close> never raises, leaves no handle for the patient, and a second
  stop changes nothing; \<open>start_mock_stream\<close>, in contrast, raises \<open>ValueError\<close> when the
  patient already has a handle.
\<close>

theorem stop_mock_stream_idempotent:
  "fst (stop_mock_stream st pid) = Inr ()
   \<and> active_streams (snd (stop_mock_stream st pid)) pid = None
   \<and> stop_mock_stream (snd (stop_mock_stream st pid)) pid = stop_mock_stream st pid
   \<and> (pid \<in> dom (active_streams st) \<longrightarrow>
        (\<exists>msg. start_mock_stream clock now st pid = (Inl (ValueError msg), st)))"
  by (auto simp: stop_mock_stream_def start_mock_stream_def split: option.splits)

theorem stop_mock_stream_idempotent_witness:
  "''P1'' \<in> dom (active_streams busy_service)
   \<and> (\<exists>msg. start_mock_stream 0 0 busy_service ''P1'' = (Inl (ValueError msg), busy_service))
   \<and> active_streams (snd (stop_mock_stream busy_service ''P1'')) ''P1'' = None"
  using stop_mock_stream_idempotent [of busy_service "''P1''" 0 0]
  by (simp add: busy_service_def)

section \<open>Tool servers: proofs\<close>

lemma starts_with_append: "starts_with xs (xs @ ys)"
  by (induction xs) auto

lemma str_in_append: "str_in needle (pre @ needle @ post)"
proof (induction pre)
  case Nil
  show ?case
    by (cases "needle @ post") (auto simp: starts_with_append dest: sym)
next
  case (Cons c pre)
  then show ?case by simp
qed

lemma bind_keywords_ok:
  "\<forall>(k, v) \<in> set kwargs. k \<noteq> ''tool_name'' \<and> k \<noteq> ''self'' \<Longrightarrow>
   bind_keywords qualname kwargs = Inr ()"
proof -
  assume "\<forall>(k, v) \<in> set kwargs. k \<noteq> ''tool_name'' \<and> k \<noteq> ''self''"
  then have "find (\<lambda>(k, v). k = ''self'' \<or> k = ''tool_name'') kwargs = None"
    by (auto simp: find_None_iff)
  then show ?thesis
    by (simp add: bind_keywords_def)
qed

lemma execute_on_first_unknown:
  "\<forall>(k, srv) \<in> set servers. tools srv name = None \<Longrightarrow>
   execute_on_first servers name kwargs =
     Inr \<lparr>success = False, result = None,
          error = Some (''Tool '' @ apostrophe @ name @ apostrophe
                        @ '' not found in any registered server''),
          tool = None, server = None\<rparr>"
  by (induction servers name kwargs rule: execute_on_first.induct) (auto simp: domIff)

lemma execute_on_first_found:
  "(k, srv) \<in> set servers \<Longrightarrow> tools srv name \<noteq> None \<Longrightarrow>
   \<exists>(k', srv') \<in> set servers. tools srv' name \<noteq> None \<and>
      execute_on_first servers name kwargs = server_execute_tool srv' name kwargs"
  by (induction servers name kwargs rule: execute_on_first.induct) (auto simp: domIff)

lemma server_execute_tool_returns:
  assumes "bind_keywords ''MCPServer.execute_tool'' kwargs = Inr ()"
    and "\<forall>t e. tools srv name = Some t \<and> handler t kwargs = Inl e \<longrightarrow> is_Exception e"
  shows "\<exists>r. server_execute_tool srv name kwargs = Inr r"
  using assms by (auto simp: server_execute_tool_def split: option.splits sum.splits)

lemma execute_on_first_returns:
  assumes "bind_keywords ''MCPServer.execute_tool'' kwargs = Inr ()"
    and "\<forall>(k, s) \<in> set servers. \<forall>t e. tools s name = Some t \<and> handler t kwargs = Inl e
           \<longrightarrow> is_Exception e"
  shows "\<exists>r. execute_on_first servers name kwargs = Inr r"
  using assms
proof (induction servers name kwargs rule: execute_on_first.induct)
  case (1 name kwargs)
  show ?case by simp
next
  case (2 k srv servers name kwargs)
  show ?case
  proof (cases "name \<in> dom (tools srv)")
    case True
    have "\<forall>t e. tools srv name = Some t \<and> handler t kwargs = Inl e \<longrightarrow> is_Exception e"
      using "2.prems"(2) by auto
    then show ?thesis
      using True "2.prems"(1) server_execute_tool_returns [of kwargs srv name] by simp
  next
    case False
    then show ?thesis
      using "2.IH" "2.prems" by auto
  qed
qed

text \<open>
  C7, as stated, fails: a keyword argument named \<open>tool_name\<close> makes either method raise
  \<open>TypeError\<close> before its body runs, and a handler that raises \<open>SystemExit\<close> is not caught
  by \<open>except Exception\<close>.
\<close>

theorem execute_tool_propagates_counterexample:
  "(\<exists>msg. server_execute_tool calculator ''divide'' [(''tool_name'', 1), (''a'', 6), (''b'', 3)]
            = Inl (TypeError msg))
   \<and> (\<exists>msg. registry_execute_tool (register_server [] calculator) ''divide''
              [(''tool_name'', 1), (''a'', 6), (''b'', 3)] = Inl (TypeError msg))
   \<and> server_execute_tool calculator ''quit'' [] = Inl (SystemExit ''0'')
   \<and> registry_execute_tool (register_server [] calculator) ''quit'' [] = Inl (SystemExit ''0'')"
  by (simp add: server_execute_tool_def registry_execute_tool_def bind_keywords_def
        calculator_def add_tool_def register_server_def quit_handler_def)

text \<open>
  C7, amended. For keyword arguments that are not named \<open>tool_name\<close> or \<open>self\<close>: a
  handler that returns gives \<open>{success: true, result, tool, server}\<close>; a handler that
  raises an \<open>Exception\<close> gives \<open>{success: false, error, tool, server}\<close>; a handler that
  raises outside the \<open>Exception\<close> hierarchy lets that exception out; a name that the
  server, or every registered server, lacks gives \<open>{success: false, error}\<close> with the name
  inside the message; the registry hands a known name to a server that has it; and when
  no handler involved raises outside the \<open>Exception\<close> hierarchy, both methods return a
  dictionary.
\<close>

theorem execute_tool_structured:
  assumes "\<forall>(k, v) \<in> set kwargs. k \<noteq> ''tool_name'' \<and> k \<noteq> ''self''"
  shows
  "((\<forall>t e. tools srv name = Some t \<and> handler t kwargs = Inl e \<longrightarrow> is_Exception e)
      \<longrightarrow> (\<exists>r. server_execute_tool srv name kwargs = Inr r))
   \<and> ((\<forall>(k, s) \<in> set servers. \<forall>t e. tools s name = Some t \<and> handler t kwargs = Inl e
           \<longrightarrow> is_Exception e)
      \<longrightarrow> (\<exists>r. registry_execute_tool servers name kwargs = Inr r))
   \<and> (\<forall>t v. tools srv name = Some t \<and> handler t kwargs = Inr v \<longrightarrow>
         server_execute_tool srv name kwargs =
           Inr \<lparr>success = True, result = Some v, error = None,
                tool = Some name, server = Some (server_name srv)\<rparr>)
   \<and> (\<forall>t e. tools srv name = Some t \<and> handler t kwargs = Inl e \<and> is_Exception e \<longrightarrow>
         server_execute_tool srv name kwargs =
           Inr \<lparr>success = False, result = None,
                error = Some (''Error executing '' @ name @ '': '' @ str_raised e),
                tool = Some name, server = Some (server_name srv)\<rparr>)
   \<and> (\<forall>t e. tools srv name = Some t \<and> handler t kwargs = Inl e \<and> \<not> is_Exception e \<longrightarrow>
         server_execute_tool srv name kwargs = Inl e)
   \<and> (tools srv name = None \<longrightarrow>
         (\<exists>msg. server_execute_tool srv name kwargs =
                  Inr \<lparr>success = False, result = None, error = Some msg,
                       tool = None, server = None\<rparr> \<and> str_in name msg))
   \<and> ((\<exists>(k, s) \<in> set servers. tools s name \<noteq> None) \<longrightarrow>
         (\<exists>(k, s) \<in> set servers. tools s name \<noteq> None \<and>
            registry_execute_tool servers name kwargs = server_execute_tool s name kwargs))
   \<and> ((\<forall>(k, s) \<in> set servers. tools s name = None) \<longrightarrow>
         (\<exists>msg. registry_execute_tool servers name kwargs =
                  Inr \<lparr>success = False, result = None, error = Some msg,
                       tool = None, server = None\<rparr> \<and> str_in name msg))"
proof -
  have bs: "bind_keywords ''MCPServer.execute_tool'' kwargs = Inr ()"
    and br: "bind_keywords ''MCPRegistry.execute_tool'' kwargs = Inr ()"
    using assms by (rule bind_keywords_ok)+
  have reg: "registry_execute_tool servers name kwargs = execute_on_first servers name kwargs"
    by (simp add: registry_execute_tool_def br)
  show ?thesis
  proof (intro conjI allI impI)
    assume "\<forall>t e. tools srv name = Some t \<and> handler t kwargs = Inl e \<longrightarrow> is_Exception e"
    then show "\<exists>r. server_execute_tool srv name kwargs = Inr r"
      using bs by (rule server_execute_tool_returns [rotated])
  next
    assume "\<forall>(k, s) \<in> set servers. \<forall>t e. tools s name = Some t \<and> handler t kwargs = Inl e
           \<longrightarrow> is_Exception e"
    then show "\<exists>r. registry_execute_tool servers name kwargs = Inr r"
      unfolding reg using bs by (rule execute_on_first_returns [rotated])
  next
    fix t v assume "tools srv name = Some t \<and> handler t kwargs = Inr v"
    then show "server_execute_tool srv name kwargs =
           Inr \<lparr>success = True, result = Some v, error = None,
                tool = Some name, server = Some (server_name srv)\<rparr>"
      by (simp add: server_execute_tool_def bs)
  next
    fix t e assume "tools srv name = Some t \<and> handler t kwargs = Inl e \<and> is_Exception e"
    then show "server_execute_tool srv name kwargs =
           Inr \<lparr>success = False, result = None,
                error = Some (''Error executing '' @ name @ '': '' @ str_raised e),
                tool = Some name, server = Some (server_name srv)\<rparr>"
      by (simp add: server_execute_tool_def bs)
  next
    fix t e assume "tools srv name = Some t \<and> handler t kwargs = Inl e \<and> \<not> is_Exception e"
    then show "server_execute_tool srv name kwargs = Inl e"
      by (simp add: server_execute_tool_def bs)
  next
    assume "tools srv name = None"
    then have "server_execute_tool srv name kwargs =
        Inr \<lparr>success = False, result = None,
             error = Some ((''Tool '' @ apostrophe) @ name @ (apostrophe
                           @ '' not found in server ''
                           @ apostrophe @ server_name srv @ apostrophe)),
             tool = None, server = None\<rparr>"
      by (simp add: server_execute_tool_def bs)
    then show "\<exists>msg. server_execute_tool srv name kwargs =
                  Inr \<lparr>success = False, result = None, error = Some msg,
                       tool = None, server = None\<rparr> \<and> str_in name msg"
      using str_in_append by blast
  next
    assume "\<exists>(k, s) \<in> set servers. tools s name \<noteq> None"
    then show "\<exists>(k, s) \<in> set servers. tools s name \<noteq> None \<and>
            registry_execute_tool servers name kwargs = server_execute_tool s name kwargs"
      unfolding reg using execute_on_first_found [of _ _ servers name kwargs] by blast
  next
    assume "\<forall>(k, s) \<in> set servers. tools s name = None"
    then have "registry_execute_tool servers name kwargs =
       Inr \<lparr>success = False, result = None,
            error = Some ((''Tool '' @ apostrophe) @ name @ (apostrophe
                          @ '' not found in any registered server'')),
            tool = None, server = None\<rparr>"
      unfolding reg using execute_on_first_unknown [of servers name kwargs] by simp
    then show "\<exists>msg. registry_execute_tool servers name kwargs =
                  Inr \<lparr>success = False, result = None, error = Some msg,
                       tool = None, server = None\<rparr> \<and> str_in name msg"
      using str_in_append by blast
  qed
qed

theorem execute_tool_structured_witness:
  "server_execute_tool calculator ''divide'' [(''a'', 6), (''b'', 3)] =
     Inr \<lparr>success = True, result = Some 2, error = None,
          tool = Some ''divide'', server = Some ''calculator''\<rparr>
   \<and> server_execute_tool calculator ''divide'' [(''a'', 6), (''b'', 0)] =
     Inr \<lparr>success = False, result = None,
          error = Some ''Error executing divide: Cannot divide by zero'',
          tool = Some ''divide'', server = Some ''calculator''\<rparr>
   \<and> (\<exists>msg. registry_execute_tool (register_server [] calculator) ''nope'' [] =
          Inr \<lparr>success = False, result = None, error = Some msg, tool = None, server = None\<rparr>
          \<and> str_in ''nope'' msg)
   \<and> registry_execute_tool (register_server [] calculator) ''divide'' [(''a'', 6), (''b'', 3)] =
       server_execute_tool calculator ''divide'' [(''a'', 6), (''b'', 3)]
   \<and> server_execute_tool calculator ''quit'' [] = Inl (SystemExit ''0'')"
  using execute_tool_structured
      [of "[(''a'', 6), (''b'', 3)]" calculator "''divide''" "register_server [] calculator"]
    execute_tool_structured
      [of "[(''a'', 6), (''b'', 0)]" calculator "''divide''" "register_server [] calculator"]
    execute_tool_structured
      [of "[]" calculator "''nope''" "register_server [] calculator"]
    execute_tool_structured
      [of "[]" calculator "''quit''" "register_server [] calculator"]
  by (simp add: calculator_def add_tool_def register_server_def divide_handler_def
        quit_handler_def)

section \<open>MNIST data loader: proofs\<close>

text \<open>
  C9. A batch size that is not positive, a validation split that is not within 0 and 1, or
  a negative worker count makes the constructor raise \<open>ValidationError\<close> before it touches
  the file system; arguments within these bounds pass the validation, and the constructor
  goes on to the data directory.
\<close>

theorem loader_validation:
  "(batch_size a \<le> 0
      \<or> \<not> (float_le (Finite 0) (validation_split a) \<and> float_le (validation_split a) (Finite 1))
      \<or> num_workers a < 0
    \<longrightarrow> (\<exists>msg. mnist_data_loader_init mkdir build a = (Inl (ValidationError msg), [])))
   \<and> (batch_size a > 0
        \<and> float_le (Finite 0) (validation_split a) \<and> float_le (validation_split a) (Finite 1)
        \<and> num_workers a \<ge> 0
      \<longrightarrow> validate_parameters a = Inr ()
          \<and> snd (mnist_data_loader_init mkdir build a) = [Mkdir (data_dir a)])"
  by (auto simp: mnist_data_loader_init_def validate_parameters_def setup_data_directory_def
        split: sum.splits prod.splits)

theorem loader_validation_witness:
  "(\<exists>msg. mnist_data_loader_init (\<lambda>d. Inr ()) (\<lambda>c. Inr ()) (default_args\<lparr>batch_size := 0\<rparr>)
       = (Inl (ValidationError msg), []))
   \<and> (\<exists>msg. mnist_data_loader_init (\<lambda>d. Inr ()) (\<lambda>c. Inr ())
              (default_args\<lparr>validation_split := Finite 1.5\<rparr>)
       = (Inl (ValidationError msg), []))
   \<and> (\<exists>msg. mnist_data_loader_init (\<lambda>d. Inr ()) (\<lambda>c. Inr ()) (default_args\<lparr>num_workers := - 1\<rparr>)
       = (Inl (ValidationError msg), []))
   \<and> validate_parameters default_args = Inr ()"
  using loader_validation [of "default_args\<lparr>batch_size := 0\<rparr>" "\<lambda>d. Inr ()" "\<lambda>c. Inr ()"]
    loader_validation [of "default_args\<lparr>validation_split := Finite 1.5\<rparr>" "\<lambda>d. Inr ()" "\<lambda>c. Inr ()"]
    loader_validation [of "default_args\<lparr>num_workers := - 1\<rparr>" "\<lambda>d. Inr ()" "\<lambda>c. Inr ()"]
    loader_validation [of default_args "\<lambda>d. Inr ()" "\<lambda>c. Inr ()"]
  by (simp add: default_args_def)

section \<open>Ticket routing workflow: proofs\<close>

lemma angry_ticket_contains: "str_in ''angry'' (lower angry_ticket)"
  by (simp add: angry_ticket_def lower_def lower_char_def)

lemma log_append_fields [simp]:
  "ticket_content (log_append l st) = ticket_content st"
  "customer_tier (log_append l st) = customer_tier st"
  "urgency (log_append l st) = urgency st"
  "category (log_append l st) = category st"
  "escalated (log_append l st) = escalated st"
  by (simp_all add: log_append_def)

lemma analyze_ticket_fields:
  "ticket_content (analyze_ticket env st) = ticket_content st"
  "escalated (analyze_ticket env st) = escalated st"
  "urgency (analyze_ticket env st) \<in> {''critical'', ''high'', ''medium'', ''low''}"
  by (simp_all add: analyze_ticket_def Let_def)

lemma determine_customer_tier_fields:
  "ticket_content (determine_customer_tier st) = ticket_content st"
  "urgency (determine_customer_tier st) = urgency st"
  "category (determine_customer_tier st) = category st"
  "escalated (determine_customer_tier st) = escalated st"
  by (simp_all add: determine_customer_tier_def Let_def)

lemma route_by_urgency_fields:
  "ticket_content (route_by_urgency st) = ticket_content st"
  "customer_tier (route_by_urgency st) = customer_tier st"
  "urgency (route_by_urgency st) = urgency st"
  "category (route_by_urgency st) = category st"
  "escalated (route_by_urgency st) = escalated st"
  by (simp_all add: route_by_urgency_def)

lemma assign_team_fields:
  "ticket_content (assign_team st) = ticket_content st"
  "customer_tier (assign_team st) = customer_tier st"
  "urgency (assign_team st) = urgency st"
  "category (assign_team st) = category st"
  by (simp_all add: assign_team_def Let_def)

lemma check_escalation_fields:
  "ticket_content (check_escalation st) = ticket_content st"
  "customer_tier (check_escalation st) = customer_tier st"
  "urgency (check_escalation st) = urgency st"
  "category (check_escalation st) = category st"
  by (simp_all add: check_escalation_def Let_def)

lemma check_escalation_flag:
  "escalated (check_escalation st) =
     (urgency st = ''high'' \<and> customer_tier st = ''enterprise''
      \<or> category st = ''complaint'' \<and> str_in ''angry'' (lower (ticket_content st)))"
  by (simp add: check_escalation_def Let_def)

lemma final_node_fields:
  "ticket_content (generate_response env st) = ticket_content st"
  "customer_tier (generate_response env st) = customer_tier st"
  "urgency (generate_response env st) = urgency st"
  "category (generate_response env st) = category st"
  "escalated (generate_response env st) = escalated st"
  "ticket_content (escalate_to_human env st) = ticket_content st"
  "customer_tier (escalate_to_human env st) = customer_tier st"
  "urgency (escalate_to_human env st) = urgency st"
  "category (escalate_to_human env st) = category st"
  "escalated (escalate_to_human env st) = escalated st"
  "ticket_content (auto_resolve st) = ticket_content st"
  "customer_tier (auto_resolve st) = customer_tier st"
  "urgency (auto_resolve st) = urgency st"
  "category (auto_resolve st) = category st"
  "escalated (auto_resolve st) = escalated st"
  by (simp_all add: generate_response_def escalate_to_human_def auto_resolve_def)

lemmas node_fields =
  analyze_ticket_fields(1,2) determine_customer_tier_fields route_by_urgency_fields
  assign_team_fields check_escalation_fields final_node_fields

lemma run_graph_final:
  "n \<in> {GenerateResponse, EscalateToHuman, AutoResolve} \<Longrightarrow>
   run_graph (Suc (Suc fuel)) env n st = Some (node_function env n st, [n])"
  by auto

lemma run_graph_assign_team:
  "run_graph (Suc (Suc (Suc (Suc fuel)))) env AssignTeam st =
     (let st' = check_escalation (assign_team st);
          n = (if escalated st' then EscalateToHuman else GenerateResponse)
      in Some (node_function env n st', [AssignTeam, CheckEscalation, n]))"
  by (simp add: escalation_condition_def escalation_routes_def Let_def)

lemma run_workflow_unfold:
  "run_workflow env content =
     (let st = routed_state env content in
      if urgency st = ''critical''
      then Some (escalate_to_human env st,
                 [AnalyzeTicket, DetermineCustomerTier, RouteByUrgency, EscalateToHuman])
      else if urgency st = ''high'' \<or> urgency st = ''medium''
      then
        (let st' = check_escalation (assign_team st);
             n = (if escalated st' then EscalateToHuman else GenerateResponse)
         in Some (node_function env n st',
                  [AnalyzeTicket, DetermineCustomerTier, RouteByUrgency, AssignTeam,
                   CheckEscalation, n]))
      else if urgency st = ''low''
      then Some (auto_resolve st,
                 [AnalyzeTicket, DetermineCustomerTier, RouteByUrgency, AutoResolve])
      else None)"
  unfolding run_workflow_def routed_state_def recursion_limit_def
  by (simp add: eval_nat_numeral route_urgency_condition_def urgency_routes_def
        escalation_condition_def escalation_routes_def Let_def route_by_urgency_fields)

lemma routed_state_fields:
  "ticket_content (routed_state env content) = content"
  "escalated (routed_state env content) = False"
  "urgency (routed_state env content) \<in> {''critical'', ''high'', ''medium'', ''low''}"
  using analyze_ticket_fields(3) [of env "initial_state content"]
  by (simp_all add: routed_state_def node_fields initial_state_def)


text \<open>
  C5, as stated, fails: a complaint that contains "angry" and is analysed as of low urgency
  is routed to \<open>auto_resolve\<close>; it never reaches \<open>check_escalation\<close> and is not escalated.
\<close>

theorem angry_complaint_low_urgency_counterexample:
  "str_in ''angry'' (lower angry_ticket)
   \<and> map_option (\<lambda>(final, visited). (category final, urgency final, escalated final, visited))
         (run_workflow low_complaint angry_ticket)
       = Some (''complaint'', ''low'', False,
               [AnalyzeTicket, DetermineCustomerTier, RouteByUrgency, AutoResolve])"
proof
  show "str_in ''angry'' (lower angry_ticket)"
    by (rule angry_ticket_contains)
  show "map_option (\<lambda>(final, visited). (category final, urgency final, escalated final, visited))
         (run_workflow low_complaint angry_ticket)
       = Some (''complaint'', ''low'', False,
               [AnalyzeTicket, DetermineCustomerTier, RouteByUrgency, AutoResolve])"
    by code_simp
qed

text \<open>
  C5, amended. \<open>check_escalation\<close> sets the flag exactly when urgency is high and the tier
  is enterprise, or the category is complaint and the lower-cased ticket text contains
  "angry". Every run of the workflow ends; a complaint that contains "angry" ends in
  \<open>escalate_to_human\<close> whenever its urgency is not low, whatever the tier; a ticket of low
  urgency ends in \<open>auto_resolve\<close> and is not escalated.
\<close>

theorem angry_complaint_escalation:
  "(escalated (check_escalation st) \<longleftrightarrow>
      (urgency st = ''high'' \<and> customer_tier st = ''enterprise'')
      \<or> (category st = ''complaint'' \<and> str_in ''angry'' (lower (ticket_content st))))
   \<and> (\<exists>final visited. run_workflow env content = Some (final, visited)
        \<and> (category final = ''complaint'' \<and> str_in ''angry'' (lower content)
             \<and> urgency final \<noteq> ''low'' \<longrightarrow> last visited = EscalateToHuman)
        \<and> (urgency final = ''low'' \<longrightarrow> last visited = AutoResolve \<and> \<not> escalated final))"
proof
  show "escalated (check_escalation st) \<longleftrightarrow>
      (urgency st = ''high'' \<and> customer_tier st = ''enterprise'')
      \<or> (category st = ''complaint'' \<and> str_in ''angry'' (lower (ticket_content st)))"
    by (rule check_escalation_flag)
next
  define st where "st = routed_state env content"
  have content: "ticket_content st = content" and flag: "\<not> escalated st"
    by (simp_all add: st_def routed_state_fields)
  consider "urgency st = ''critical''" | "urgency st = ''high'' \<or> urgency st = ''medium''"
    | "urgency st = ''low''"
    using routed_state_fields(3) [of env content] by (auto simp: st_def)
  then show "\<exists>final visited. run_workflow env content = Some (final, visited)
        \<and> (category final = ''complaint'' \<and> str_in ''angry'' (lower content)
             \<and> urgency final \<noteq> ''low'' \<longrightarrow> last visited = EscalateToHuman)
        \<and> (urgency final = ''low'' \<longrightarrow> last visited = AutoResolve \<and> \<not> escalated final)"
  proof cases
    case 1
    then have "run_workflow env content =
        Some (escalate_to_human env st,
              [AnalyzeTicket, DetermineCustomerTier, RouteByUrgency, EscalateToHuman])"
      by (simp add: run_workflow_unfold st_def [symmetric])
    then show ?thesis
      using 1 by (simp add: node_fields)
  next
    case 2
    define st' where "st' = check_escalation (assign_team st)"
    define n where "n = (if escalated st' then EscalateToHuman else GenerateResponse)"
    have run: "run_workflow env content =
        Some (node_function env n st',
              [AnalyzeTicket, DetermineCustomerTier, RouteByUrgency, AssignTeam,
               CheckEscalation, n])"
      using 2 by (auto simp: run_workflow_unfold st_def [symmetric] st'_def n_def Let_def)
    have fields: "category (node_function env n st') = category st"
      "urgency (node_function env n st') = urgency st"
      by (simp_all add: n_def st'_def node_fields)
    have "category st = ''complaint'' \<and> str_in ''angry'' (lower content) \<longrightarrow> escalated st'"
      by (simp add: st'_def check_escalation_flag node_fields content)
    then have "category st = ''complaint'' \<and> str_in ''angry'' (lower content)
        \<longrightarrow> n = EscalateToHuman"
      by (simp add: n_def)
    then show ?thesis
      using 2 run fields by auto
  next
    case 3
    then have "run_workflow env content =
        Some (auto_resolve st,
              [AnalyzeTicket, DetermineCustomerTier, RouteByUrgency, AutoResolve])"
      by (simp add: run_workflow_unfold st_def [symmetric])
    then show ?thesis
      using 3 flag by (simp add: node_fields)
  qed
qed

theorem angry_complaint_escalation_witness:
  "str_in ''angry'' (lower angry_ticket)
   \<and> (\<exists>final visited. run_workflow high_complaint angry_ticket = Some (final, visited)
        \<and> category final = ''complaint'' \<and> urgency final = ''high''
        \<and> last visited = EscalateToHuman)"
proof -
  obtain final visited where run: "run_workflow high_complaint angry_ticket = Some (final, visited)"
    and esc: "category final = ''complaint'' \<and> str_in ''angry'' (lower angry_ticket)
             \<and> urgency final \<noteq> ''low'' \<longrightarrow> last visited = EscalateToHuman"
    using angry_complaint_escalation [of "initial_state angry_ticket" high_complaint angry_ticket] by blast
  have "map_option (\<lambda>(final, visited). (category final, urgency final))
          (run_workflow high_complaint angry_ticket) = Some (''complaint'', ''high'')"
    by code_simp
  then have "category final = ''complaint''" and "urgency final = ''high''"
    using run by simp_all
  then show ?thesis
    using run esc angry_ticket_contains by simp
qed

section \<open>Vector store: proofs\<close>

text \<open>
  C6. A boolean metadata value is written with \<open>str\<close>, as the text \<open>True\<close>, which is not
  JSON: whenever the decoder rejects that text, as \<open>json.loads\<close> does, the document that
  was added with \<open>{flag: True}\<close> is retrieved with \<open>{flag: "True"}\<close>, a string in
  place of the boolean.
\<close>

theorem boolean_metadata_comes_back_as_text:
  assumes "loads ''True'' = None"
  shows "get_document loads
           (snd (add_document dumps uuid [] ''hello'' [(''flag'', PBool True)] (Some ''d1''))) ''d1''
         = Some \<lparr>r_id = ''d1'', r_content = ''hello'', r_metadata = [(''flag'', PStr ''True'')]\<rparr>"
  using assms
  by (simp add: get_document_def add_document_def collection_add_def collection_get_def
        chroma_metadata_def parse_metadata_def str_bool_def Let_def)

theorem boolean_metadata_comes_back_as_text_witness:
  "literal_loads ''True'' = None
   \<and> map_option r_metadata
        (get_document literal_loads
           (snd (add_document (\<lambda>v. ''null'') ''u1'' [] ''hello'' [(''flag'', PBool True)]
                   (Some ''d1''))) ''d1'')
     = Some [(''flag'', PStr ''True'')]"
  using boolean_metadata_comes_back_as_text [of literal_loads "\<lambda>v. ''null''" "''u1''"]
  by (simp add: literal_loads_def Let_def)

end
